theory Spec2Isabelle
  imports Complex_Main "HOL-Library.Word"
begin

section \<open>Data model of the consensus core\<close>

text \<open>
  Digests, addresses, keys, signatures and encoded messages are byte strings in the
  source (\<^verbatim>\<open>Hash [32]byte\<close>, \<^verbatim>\<open>Addr [20]byte\<close>, \<^verbatim>\<open>[]byte\<close>); a byte string is a
  \<^typ>\<open>string\<close> here. The code only copies and compares them.
\<close>

type_synonym bytes = string
type_synonym Hash = string
type_synonym Addr = string
type_synonym Rand = string
type_synonym PK = string
type_synonym SK = string
type_synonym Sign = string
type_synonym SysTxn = string
type_synonym Weight = real

text \<open>The application state is an external collaborator: an opaque handle.\<close>

type_synonym State = nat
type_synonym SysState = nat

definition zeroAddr :: Addr where
  "zeroAddr = replicate 20 (CHR 0x00)"

record BlockProposal =
  bp_Owner :: Addr
  bp_Round :: int
  bp_PrevBlock :: Hash
  bp_Txns :: bytes
  bp_SysTxns :: "SysTxn list"

record NtShare =
  nts_Round :: int
  nts_BP :: Hash
  nts_StateRoot :: Hash
  nts_SigShare :: bytes
  nts_Owner :: Addr
  nts_Sig :: bytes

record Block =
  blk_Owner :: Addr
  blk_Round :: int
  blk_StateRoot :: Hash
  blk_BlockProposal :: Hash
  blk_PrevBlock :: Hash
  blk_SysTxns :: "SysTxn list"
  blk_NotarizationSig :: bytes

record finalized =
  fin_Block :: Hash
  fin_BP :: Hash

record unNotarized =
  un_BP :: Hash
  un_Weight :: Weight

text \<open>
  A fork-tree node. The source links nodes by pointer; every node is created once, in
  \<^verbatim>\<open>addBlock\<close>, and linked at one place, so the tree of owned children is a value.
\<close>

datatype notarized = Notarized
  (nt_Block: Hash) (nt_Weight: Weight)
  (nt_NtChildren: "notarized list") (nt_NonNtChildren: "unNotarized list")
  (nt_BP: Hash) (nt_State: "State option") (nt_SysState: "SysState option")

record Config =
  GroupThreshold :: int

record Chain =
  cfg :: Config
  History :: "Hash list"
  LastHistoryState :: "State option"
  LastHistorySysState :: "SysState option"
  Finalized :: "finalized list"
  LastFinalizedState :: "State option"
  LastFinalizedSysState :: "SysState option"
  Fork :: "notarized list"
  UnNotarizedNotOnFork :: "unNotarized list"
  hashToBlock :: "Hash \<rightharpoonup> Block"
  hashToBP :: "Hash \<rightharpoonup> BlockProposal"
  hashToNtShare :: "Hash \<rightharpoonup> NtShare"
  bpToNtShares :: "Hash \<rightharpoonup> NtShare list"
  bpNeedNotarize :: "Hash \<rightharpoonup> bool"

text \<open>
  Errors returned to the caller, and faults (\<^verbatim>\<open>panic\<close>, or an index out of range).
  An operation returns its result together with the chain as it left it; at a fault that
  is the chain at the moment of the panic.
\<close>

datatype error =
    ErrChainDataAlreadyExists
  | ErrBPParentNotFound Hash int
  | ErrBPNotFound
  | ErrNoNeedNotarize
  | ErrNtShareAlreadyReceived
  | ErrBlockAlreadyExists
  | ErrBlockBPNotFound
  | ErrCanNotConnect
  | ErrUnexpectedShareRound int int
  | ErrUnexpectedSigRound int int

datatype fault =
    PanicRecoverNtSig
  | PanicGroupSigNotValid
  | PanicIndexOutOfRange
  | PanicRandBeaconSigNotValid
  | PanicPrevBlockNotFound
  | PanicPrevStateNotFound
  | PanicCommitTxns

datatype 'a result = Ok 'a | Err error | Panic fault

text \<open>
  What the chain calls but the repository's sources do not define: the content hashes,
  the canonical encoding, threshold recovery, signature verification and serialization,
  and the group keys held by the random beacon (\<open>None\<close> where the index is out of range).
\<close>

record Ext =
  hashBP :: "BlockProposal \<Rightarrow> Hash"
  hashBlock :: "Block \<Rightarrow> Hash"
  hashNtShare :: "NtShare \<Rightarrow> Hash"
  encodeBP :: "BlockProposal \<Rightarrow> bool \<Rightarrow> bytes"
  recoverNtSig :: "NtShare list \<Rightarrow> Sign option"
  sigVerify :: "Sign \<Rightarrow> PK \<Rightarrow> bytes \<Rightarrow> bool"
  sigSerialize :: "Sign \<Rightarrow> bytes"
  groupPK :: "int \<Rightarrow> PK option"
  beaconRound :: int

section \<open>The chain\<close>

subsection \<open>Queries\<close>

text \<open>Reading a Go map at a missing key gives the zero value: \<open>false\<close>, the nil slice.\<close>

definition needNotarize :: "Chain \<Rightarrow> Hash \<Rightarrow> bool" where
  "needNotarize c h = (case bpNeedNotarize c h of Some b \<Rightarrow> b | None \<Rightarrow> False)"

definition sharesOf :: "Chain \<Rightarrow> Hash \<Rightarrow> NtShare list" where
  "sharesOf c h = (case bpToNtShares c h of Some ss \<Rightarrow> ss | None \<Rightarrow> [])"

fun maxHeightLoop :: "int \<Rightarrow> notarized list \<Rightarrow> int" where
  "maxHeightLoop mx [] = mx"
| "maxHeightLoop mx (Notarized b w ch un bp st sy # ns) =
     (let h = maxHeightLoop 0 ch + 1
      in maxHeightLoop (if mx < h then h else mx) ns)"

definition maxHeight :: "notarized list \<Rightarrow> int" where
  "maxHeight ns = maxHeightLoop 0 ns"

definition Round :: "Chain \<Rightarrow> int" where
  "Round c = int (length (History c)) + int (length (Finalized c)) + maxHeight (Fork c)"

fun heaviestDescend :: "notarized \<Rightarrow> notarized" where
  "heaviestDescend (Notarized b w [] un bp st sy) = Notarized b w [] un bp st sy"
| "heaviestDescend (Notarized b w (n # ns) un bp st sy) = heaviestDescend n"

definition heaviestFork :: "Chain \<Rightarrow> notarized result" where
  "heaviestFork c = (case Fork c of [] \<Rightarrow> Panic PanicIndexOutOfRange
                     | n # ns \<Rightarrow> Ok (heaviestDescend n))"

definition Leader :: "Chain \<Rightarrow> (Block option \<times> State option \<times> SysState option) result" where
  "Leader c =
     (if Finalized c = [] \<and> Fork c = [] then
        (if History c = [] then Panic PanicIndexOutOfRange
         else Ok (hashToBlock c (last (History c)), LastHistoryState c, LastHistorySysState c))
      else if Finalized c \<noteq> [] \<and> Fork c = [] then
        Ok (hashToBlock c (fin_Block (last (Finalized c))),
            LastFinalizedState c, LastFinalizedSysState c)
      else
        (case heaviestFork c of
           Ok n \<Rightarrow> Ok (hashToBlock c (nt_Block n), nt_State n, nt_SysState n)
         | Err e \<Rightarrow> Err e
         | Panic f \<Rightarrow> Panic f))"

fun findPrevBlock :: "Hash \<Rightarrow> notarized list \<Rightarrow> notarized option" where
  "findPrevBlock p [] = None"
| "findPrevBlock p (Notarized b w ch un bp st sy # ns) =
     (if b = p then Some (Notarized b w ch un bp st sy)
      else (case findPrevBlock p ch of
              Some n \<Rightarrow> Some n
            | None \<Rightarrow> findPrevBlock p ns))"

text \<open>
  \<^verbatim>\<open>findPrevBlock\<close> returns a pointer, and the callers append to a child list of the
  node it points to. \<open>updatePrev p f\<close> rewrites with \<open>f\<close> exactly that node: the
  first one the same depth-first search meets.
\<close>

fun updatePrev :: "Hash \<Rightarrow> (notarized \<Rightarrow> notarized) \<Rightarrow> notarized list \<Rightarrow> notarized list" where
  "updatePrev p f [] = []"
| "updatePrev p f (Notarized b w ch un bp st sy # ns) =
     (if b = p then f (Notarized b w ch un bp st sy) # ns
      else (case findPrevBlock p ch of
              Some n \<Rightarrow> Notarized b w (updatePrev p f ch) un bp st sy # ns
            | None \<Rightarrow> Notarized b w ch un bp st sy # updatePrev p f ns))"

fun appendNonNtChild :: "unNotarized \<Rightarrow> notarized \<Rightarrow> notarized" where
  "appendNonNtChild u (Notarized b w ch un bp st sy) = Notarized b w ch (un @ [u]) bp st sy"

fun appendNtChild :: "notarized \<Rightarrow> notarized \<Rightarrow> notarized" where
  "appendNtChild n (Notarized b w ch un bp st sy) = Notarized b w (ch @ [n]) un bp st sy"

subsection \<open>addBP\<close>

text \<open>
  The notification of the driving node (\<^verbatim>\<open>go c.n.RecvBlockProposal(bp)\<close>) is sent without
  waiting and changes nothing in the chain; it is left out.
\<close>

definition addBP :: "Ext \<Rightarrow> BlockProposal \<Rightarrow> Weight \<Rightarrow> Chain \<Rightarrow> unit result \<times> Chain" where
  "addBP x bp weight c =
     (let h = hashBP x bp in
      if hashToBP c h \<noteq> None then (Err ErrChainDataAlreadyExists, c)
      else
        let prev = findPrevBlock (bp_PrevBlock bp) (Fork c) in
        if prev = None \<and> Finalized c \<noteq> []
           \<and> fin_Block (last (Finalized c)) \<noteq> bp_PrevBlock bp
        then (Err (ErrBPParentNotFound (bp_PrevBlock bp) (bp_Round bp)), c)
        else if prev = None \<and> History c = [] then (Panic PanicIndexOutOfRange, c)
        else if prev = None \<and> last (History c) \<noteq> bp_PrevBlock bp
        then (Err (ErrBPParentNotFound (bp_PrevBlock bp) (bp_Round bp)), c)
        else
          let c1 = c\<lparr>hashToBP := (hashToBP c)(h \<mapsto> bp)\<rparr>;
              u = \<lparr>un_BP = h, un_Weight = weight\<rparr>;
              c2 = (if prev \<noteq> None
                    then c1\<lparr>Fork := updatePrev (bp_PrevBlock bp) (appendNonNtChild u) (Fork c1)\<rparr>
                    else c1\<lparr>UnNotarizedNotOnFork := UnNotarizedNotOnFork c1 @ [u]\<rparr>)
          in (Ok (), c2\<lparr>bpNeedNotarize := (bpNeedNotarize c2)(h \<mapsto> True)\<rparr>))"

subsection \<open>addNtShare\<close>

primrec ownerSeen :: "Addr \<Rightarrow> NtShare list \<Rightarrow> bool" where
  "ownerSeen a [] = False"
| "ownerSeen a (s # ss) = (if nts_Owner s = a then True else ownerSeen a ss)"

primrec deleteNtShares :: "Ext \<Rightarrow> NtShare list \<Rightarrow> (Hash \<rightharpoonup> NtShare) \<Rightarrow> (Hash \<rightharpoonup> NtShare)" where
  "deleteNtShares x [] m = m"
| "deleteNtShares x (s # ss) m = deleteNtShares x ss (m(hashNtShare x s := None))"

definition validateGroupSig :: "Ext \<Rightarrow> Sign \<Rightarrow> int \<Rightarrow> BlockProposal \<Rightarrow> bool result" where
  "validateGroupSig x sig groupID bp =
     (case groupPK x groupID of
        None \<Rightarrow> Panic PanicIndexOutOfRange
      | Some pk \<Rightarrow> Ok (sigVerify x sig pk (encodeBP x bp True)))"

definition ntBlock :: "Ext \<Rightarrow> BlockProposal \<Rightarrow> NtShare \<Rightarrow> Sign \<Rightarrow> Block" where
  "ntBlock x bp n sig =
     \<lparr>blk_Owner = zeroAddr,
      blk_Round = bp_Round bp,
      blk_StateRoot = nts_StateRoot n,
      blk_BlockProposal = nts_BP n,
      blk_PrevBlock = bp_PrevBlock bp,
      blk_SysTxns = bp_SysTxns bp,
      blk_NotarizationSig = sigSerialize x sig\<rparr>"

definition addNtShare :: "Ext \<Rightarrow> NtShare \<Rightarrow> int \<Rightarrow> Chain \<Rightarrow> Block option result \<times> Chain" where
  "addNtShare x n groupID c =
     (case hashToBP c (nts_BP n) of
        None \<Rightarrow> (Err ErrBPNotFound, c)
      | Some bp \<Rightarrow>
          if \<not> needNotarize c (nts_BP n) then (Err ErrNoNeedNotarize, c)
          else if ownerSeen (nts_Owner n) (sharesOf c (nts_BP n))
          then (Err ErrNtShareAlreadyReceived, c)
          else
            let shares = sharesOf c (nts_BP n) @ [n];
                c1 = c\<lparr>bpToNtShares := (bpToNtShares c)(nts_BP n \<mapsto> shares)\<rparr>
            in
            if GroupThreshold (cfg c1) \<le> int (length shares) then
              (case recoverNtSig x shares of
                 None \<Rightarrow> (Panic PanicRecoverNtSig, c1)
               | Some sig \<Rightarrow>
                   (case validateGroupSig x sig groupID bp of
                      Panic f \<Rightarrow> (Panic f, c1)
                    | Err e \<Rightarrow> (Err e, c1)
                    | Ok valid \<Rightarrow>
                        if \<not> valid then (Panic PanicGroupSigNotValid, c1)
                        else
                          (Ok (Some (ntBlock x bp n sig)),
                           c1\<lparr>bpNeedNotarize := (bpNeedNotarize c1)(nts_BP n := None),
                              hashToNtShare := deleteNtShares x shares (hashToNtShare c1),
                              bpToNtShares := (bpToNtShares c1)(nts_BP n := None)\<rparr>)))
            else
              (Ok None, c1\<lparr>hashToNtShare := (hashToNtShare c1)(hashNtShare x n \<mapsto> n)\<rparr>))"

subsection \<open>addBlock\<close>

text \<open>
  The result of a successful \<^verbatim>\<open>addBlock\<close> says whether the driving node is told to start
  the next round (\<^verbatim>\<open>go c.n.StartRound(round)\<close>).
\<close>

definition addBlock :: "Ext \<Rightarrow> Block \<Rightarrow> Weight \<Rightarrow> Chain \<Rightarrow> bool result \<times> Chain" where
  "addBlock x b weight c =
     (let prevRound = Round c;
          h = hashBlock x b
      in
      if hashToBlock c h \<noteq> None then (Err ErrBlockAlreadyExists, c)
      else if hashToBP c (blk_BlockProposal b) = None then (Err ErrBlockBPNotFound, c)
      else
        let prev = findPrevBlock (blk_PrevBlock b) (Fork c);
            attach = (\<lambda>st sy.
              let nt = Notarized h weight [] [] (blk_BlockProposal b) st sy;
                  c1 = (if prev \<noteq> None
                        then c\<lparr>Fork := updatePrev (blk_PrevBlock b) (appendNtChild nt) (Fork c)\<rparr>
                        else c\<lparr>Fork := Fork c @ [nt]\<rparr>);
                  c2 = c1\<lparr>hashToBlock := (hashToBlock c1)(h \<mapsto> b),
                          bpNeedNotarize := (bpNeedNotarize c1)(blk_BlockProposal b := None),
                          bpToNtShares := (bpToNtShares c1)(blk_BlockProposal b := None)\<rparr>;
                  rnd = Round c2
              in (Ok (rnd = prevRound + 1 \<and> rnd = beaconRound x), c2))
        in
        (case prev of
           Some p \<Rightarrow> attach (nt_State p) (nt_SysState p)
         | None \<Rightarrow>
             if Finalized c \<noteq> [] \<and> fin_Block (last (Finalized c)) = blk_PrevBlock b
             then attach (LastFinalizedState c) (LastFinalizedSysState c)
             else if History c = [] then (Panic PanicIndexOutOfRange, c)
             else if last (History c) = blk_PrevBlock b
             then attach (LastHistoryState c) (LastHistorySysState c)
             else (Err ErrCanNotConnect, c)))"

subsection \<open>Sequences of operations\<close>

datatype ChainOp =
    OpAddBP BlockProposal Weight
  | OpAddNtShare NtShare int
  | OpAddBlock Block Weight

fun chainStep :: "Ext \<Rightarrow> Chain \<Rightarrow> ChainOp \<Rightarrow> Chain" where
  "chainStep x c (OpAddBP bp w) = snd (addBP x bp w c)"
| "chainStep x c (OpAddNtShare n g) = snd (addNtShare x n g c)"
| "chainStep x c (OpAddBlock b w) = snd (addBlock x b w c)"

definition chainRun :: "Ext \<Rightarrow> ChainOp list \<Rightarrow> Chain \<Rightarrow> Chain" where
  "chainRun x ops c = foldl (chainStep x) c ops"

text \<open>The shares of a list submitted one after the other, with the result of every call.\<close>

fun addNtShares :: "Ext \<Rightarrow> int \<Rightarrow> NtShare list \<Rightarrow> Chain \<Rightarrow> Block option result list \<times> Chain" where
  "addNtShares x g [] c = ([], c)"
| "addNtShares x g (n # ns) c =
     (case addNtShare x n g c of
        (r, c1) \<Rightarrow> (case addNtShares x g ns c1 of (rs, c2) \<Rightarrow> (r # rs, c2)))"

text \<open>The blocks of a list appended one after the other; \<open>None\<close> if a call does not succeed.\<close>

fun addBlocks :: "Ext \<Rightarrow> (Block \<times> Weight) list \<Rightarrow> Chain \<Rightarrow> Chain option" where
  "addBlocks x [] c = Some c"
| "addBlocks x ((b, w) # bs) c =
     (case addBlock x b w c of
        (Ok s, c1) \<Rightarrow> addBlocks x bs c1
      | (Err e, c1) \<Rightarrow> None
      | (Panic f, c1) \<Rightarrow> None)"

text \<open>Each block of the list names the one before it as its parent; the first names \<open>p\<close>.\<close>

fun extendsTip :: "Ext \<Rightarrow> Hash \<Rightarrow> (Block \<times> Weight) list \<Rightarrow> bool" where
  "extendsTip x p [] = True"
| "extendsTip x p ((b, w) # bs) = (blk_PrevBlock b = p \<and> extendsTip x (hashBlock x b) bs)"

subsection \<open>Positions in the fork tree\<close>

text \<open>
  The depth (roots are at depth 1) of the node \<^verbatim>\<open>findPrevBlock\<close> returns, and the depth
  of a parent: 0 when it is not in the fork tree (the finalized or history tail).
\<close>

fun findDepth :: "Hash \<Rightarrow> notarized list \<Rightarrow> int option" where
  "findDepth p [] = None"
| "findDepth p (Notarized b w ch un bp st sy # ns) =
     (if b = p then Some 1
      else (case findDepth p ch of
              Some d \<Rightarrow> Some (d + 1)
            | None \<Rightarrow> findDepth p ns))"

definition parentDepth :: "Hash \<Rightarrow> notarized list \<Rightarrow> int" where
  "parentDepth p ns = (case findDepth p ns of None \<Rightarrow> 0 | Some d \<Rightarrow> d)"

text \<open>
  The spec's ``max tree depth of Fork'': the greatest number of nodes on a path from a
  root down through notarized children, 0 for an empty fork.
\<close>

fun forkDepth :: "notarized list \<Rightarrow> int" where
  "forkDepth [] = 0"
| "forkDepth (Notarized b w ch un bp st sy # ns) = max (1 + forkDepth ch) (forkDepth ns)"

fun forkBlocks :: "notarized list \<Rightarrow> Hash list" where
  "forkBlocks [] = []"
| "forkBlocks (Notarized b w ch un bp st sy # ns) = b # forkBlocks ch @ forkBlocks ns"

text \<open>Every block of the fork tree is indexed by its hash, as \<^verbatim>\<open>addBlock\<close> leaves it.\<close>

definition forkIndexed :: "Chain \<Rightarrow> bool" where
  "forkIndexed c = list_all (\<lambda>h. hashToBlock c h \<noteq> None) (forkBlocks (Fork c))"

section \<open>The random beacon's round information\<close>

text \<open>
  Modelled from the spec: \<^verbatim>\<open>Group\<close>, \<^verbatim>\<open>RandBeaconSigShare\<close> and \<^verbatim>\<open>RandBeaconSig\<close> are
  declared outside the sources at hand; the spec gives a group as a public key and a
  member set, and the beacon messages as the analogues of \<^verbatim>\<open>NtShare\<close> and of the
  notarization signature. The fields the code reads are \<^verbatim>\<open>Round\<close>, \<^verbatim>\<open>LastRandVal\<close>,
  \<^verbatim>\<open>Sig\<close> and \<^verbatim>\<open>PK\<close>.
\<close>

record Group =
  grp_PK :: PK
  grp_Members :: "Addr list"

record RandBeaconSigShare =
  rbss_Owner :: Addr
  rbss_Round :: int
  rbss_LastRandVal :: Hash
  rbss_Share :: bytes
  rbss_OwnerSig :: bytes

record RandBeaconSig =
  rbs_Round :: int
  rbs_LastRandVal :: Hash
  rbs_Sig :: bytes

record RoundInfo =
  nextRBCmteHistory :: "int list"
  nextNtCmteHistory :: "int list"
  nextBPCmteHistory :: "int list"
  groups :: "Group list"
  rbRand :: Rand
  ntRand :: Rand
  bpRand :: Rand
  curRoundShares :: "RandBeaconSigShare list"

text \<open>
  What the round information calls but the sources at hand do not define: \<^verbatim>\<open>Rand.Derive\<close>,
  \<^verbatim>\<open>Rand.Mod\<close>, \<^verbatim>\<open>hash\<close>, the constant \<^verbatim>\<open>groupThreshold\<close>, threshold recovery, encoding,
  verification and serialization.
\<close>

record BeaconExt =
  Derive :: "Rand \<Rightarrow> bytes \<Rightarrow> Rand"
  Mod :: "Rand \<Rightarrow> int \<Rightarrow> int"
  hash :: "bytes \<Rightarrow> Hash"
  groupThreshold :: int
  recoverRandBeaconSig :: "RandBeaconSigShare list \<Rightarrow> Sign"
  encodeRBS :: "RandBeaconSig \<Rightarrow> bool \<Rightarrow> bytes"
  rbVerify :: "Sign \<Rightarrow> PK \<Rightarrow> bytes \<Rightarrow> bool"
  rbSerialize :: "Sign \<Rightarrow> bytes"

definition NewRoundInfo :: "BeaconExt \<Rightarrow> Rand \<Rightarrow> Group list \<Rightarrow> RoundInfo" where
  "NewRoundInfo x seed gs =
     (let rb = Derive x seed ''random beacon committee rand seed'';
          bp = Derive x seed ''block proposer committee rand seed'';
          nt = Derive x seed ''notarization committee rand seed''
      in \<lparr>nextRBCmteHistory = [Mod x rb (int (length gs))],
          nextNtCmteHistory = [Mod x nt (int (length gs))],
          nextBPCmteHistory = [Mod x bp (int (length gs))],
          groups = gs,
          rbRand = rb,
          ntRand = nt,
          bpRand = bp,
          curRoundShares = []\<rparr>)"

definition randRound :: "RoundInfo \<Rightarrow> int" where
  "randRound r = int (length (nextRBCmteHistory r))"

definition groupAt :: "Group list \<Rightarrow> int \<Rightarrow> Group option" where
  "groupAt gs i = (if 0 \<le> i \<and> i < int (length gs) then Some (gs ! nat i) else None)"

definition RecvRandBeaconSigShare ::
  "BeaconExt \<Rightarrow> RandBeaconSigShare \<Rightarrow> int \<Rightarrow> RoundInfo \<Rightarrow> RandBeaconSig option result \<times> RoundInfo" where
  "RecvRandBeaconSigShare x s groupID r =
     (if randRound r \<noteq> rbss_Round s
      then (Err (ErrUnexpectedShareRound (rbss_Round s) (randRound r)), r)
      else
        let r1 = r\<lparr>curRoundShares := curRoundShares r @ [s]\<rparr> in
        if groupThreshold x \<le> int (length (curRoundShares r1)) then
          (let sig = recoverRandBeaconSig x (curRoundShares r1);
               rbs = \<lparr>rbs_Round = rbss_Round s, rbs_LastRandVal = rbss_LastRandVal s, rbs_Sig = []\<rparr>;
               msg = encodeRBS x rbs False
           in case groupAt (groups r1) groupID of
                None \<Rightarrow> (Panic PanicIndexOutOfRange, r1)
              | Some g \<Rightarrow>
                  if \<not> rbVerify x sig (grp_PK g) msg
                  then (Panic PanicRandBeaconSigNotValid, r1)
                  else (Ok (Some (rbs\<lparr>rbs_Sig := rbSerialize x sig\<rparr>)), r1))
        else (Ok None, r1))"

definition deriveRand :: "BeaconExt \<Rightarrow> Hash \<Rightarrow> RoundInfo \<Rightarrow> RoundInfo" where
  "deriveRand x h r =
     (let r1 = r\<lparr>rbRand := Derive x (rbRand r) h\<rparr>;
          r2 = r1\<lparr>nextRBCmteHistory :=
                    nextRBCmteHistory r1 @ [Mod x (rbRand r1) (int (length (groups r1)))]\<rparr>;
          r3 = r2\<lparr>ntRand := Derive x (ntRand r2) h\<rparr>;
          r4 = r3\<lparr>nextNtCmteHistory :=
                    nextNtCmteHistory r3 @ [Mod x (ntRand r3) (int (length (groups r3)))]\<rparr>;
          r5 = r4\<lparr>bpRand := Derive x (bpRand r4) h\<rparr>
      in r5\<lparr>nextBPCmteHistory :=
               nextBPCmteHistory r5 @ [Mod x (bpRand r5) (int (length (groups r5)))]\<rparr>)"

definition RecvRandBeaconSig :: "BeaconExt \<Rightarrow> RandBeaconSig \<Rightarrow> RoundInfo \<Rightarrow> unit result \<times> RoundInfo" where
  "RecvRandBeaconSig x s r =
     (if randRound r \<noteq> rbs_Round s
      then (Err (ErrUnexpectedSigRound (rbs_Round s) (randRound r)), r)
      else (Ok (), (deriveRand x (hash x (rbs_Sig s)) r)\<lparr>curRoundShares := []\<rparr>))"

text \<open>What a beacon instance is fed: signature shares and aggregate signatures.\<close>

datatype BeaconEvent =
    EvSigShare RandBeaconSigShare int
  | EvSig RandBeaconSig

fun beaconStep :: "BeaconExt \<Rightarrow> RoundInfo \<Rightarrow> BeaconEvent \<Rightarrow> RoundInfo" where
  "beaconStep x r (EvSigShare s g) = snd (RecvRandBeaconSigShare x s g r)"
| "beaconStep x r (EvSig s) = snd (RecvRandBeaconSig x s r)"

definition beaconRun :: "BeaconExt \<Rightarrow> BeaconEvent list \<Rightarrow> RoundInfo \<Rightarrow> RoundInfo" where
  "beaconRun x es r = foldl (beaconStep x) r es"

fun sigsOf :: "BeaconEvent list \<Rightarrow> RandBeaconSig list" where
  "sigsOf [] = []"
| "sigsOf (EvSigShare s g # es) = sigsOf es"
| "sigsOf (EvSig s # es) = s # sigsOf es"

definition cmteHistories :: "RoundInfo \<Rightarrow> int list \<times> int list \<times> int list" where
  "cmteHistories r = (nextRBCmteHistory r, nextNtCmteHistory r, nextBPCmteHistory r)"

section \<open>The notary\<close>

record Notary =
  n_owner :: Addr
  n_sk :: SK
  n_share :: SK

text \<open>
  What the notary calls but the sources at hand do not define: the beacon's rank of a
  proposer (\<open>None\<close> for its error), the block store, the state of a block, the commit
  of a transaction batch (\<open>None\<close> for its error), hashes, encodings and signing.
\<close>

record NotaryExt =
  Rank :: "Addr \<Rightarrow> int \<Rightarrow> 16 word option"
  storeBlock :: "Hash \<Rightarrow> Block option"
  BlockState :: "Hash \<Rightarrow> State option"
  CommitTxns :: "State \<Rightarrow> bytes \<Rightarrow> int \<Rightarrow> State option"
  stateHash :: "State \<Rightarrow> Hash"
  bpHash :: "BlockProposal \<Rightarrow> Hash"
  encodeBlock :: "Block \<Rightarrow> bool \<Rightarrow> bytes"
  encodeNtShare :: "NtShare \<Rightarrow> bool \<Rightarrow> bytes"
  skSign :: "SK \<Rightarrow> bytes \<Rightarrow> bytes"

text \<open>The tentative block \<^verbatim>\<open>notarize\<close> builds and signs with the group key share.\<close>

definition notarizeBlk :: "NotaryExt \<Rightarrow> BlockProposal \<Rightarrow> Hash \<Rightarrow> Block" where
  "notarizeBlk x bp stateRoot =
     \<lparr>blk_Owner = bp_Owner bp,
      blk_Round = bp_Round bp,
      blk_StateRoot = stateRoot,
      blk_BlockProposal = bpHash x bp,
      blk_PrevBlock = bp_PrevBlock bp,
      blk_SysTxns = [],
      blk_NotarizationSig = []\<rparr>"

text \<open>The share \<^verbatim>\<open>notarize\<close> returns; the duration it also returns is wall-clock time.\<close>

definition notarize :: "NotaryExt \<Rightarrow> Notary \<Rightarrow> BlockProposal \<Rightarrow> NtShare result" where
  "notarize x n bp =
     (case storeBlock x (bp_PrevBlock bp) of
        None \<Rightarrow> Panic PanicPrevBlockNotFound
      | Some prevBlock \<Rightarrow>
          (case BlockState x (bp_PrevBlock bp) of
             None \<Rightarrow> Panic PanicPrevStateNotFound
           | Some state \<Rightarrow>
               (case CommitTxns x state (bp_Txns bp) (bp_Round bp) of
                  None \<Rightarrow> Panic PanicCommitTxns
                | Some newState \<Rightarrow>
                    let stateRoot = stateHash x newState;
                        blk = notarizeBlk x bp stateRoot;
                        nts = \<lparr>nts_Round = bp_Round bp,
                               nts_BP = bpHash x bp,
                               nts_StateRoot = stateRoot,
                               nts_SigShare = skSign x (n_share n) (encodeBlock x blk False),
                               nts_Owner = n_owner n,
                               nts_Sig = []\<rparr>
                    in Ok (nts\<lparr>nts_Sig := skSign x (n_sk n) (encodeNtShare x nts False)\<rparr>))))"

text \<open>
  \<^verbatim>\<open>Notarize\<close> waits in a \<^verbatim>\<open>select\<close>; a run is the list of the cases that fired, in
  order. A case that is not ready (the best-rank channel before it is closed, a channel
  the current \<^verbatim>\<open>select\<close> does not read) cannot fire and is passed over. The result is the
  list of shares handed to \<^verbatim>\<open>onNotarize\<close> and how the run stands at the end of the list.
\<close>

datatype NotaryEvent =
    EvProposal BlockProposal
  | EvCtxDone
  | EvCancelDone
  | EvRecvBestRank

datatype NotaryStatus = Returned | Waiting | Faulted fault

text \<open>
  \<^verbatim>\<open>notarize\<close> returns a share or panics; the branch for a returned error stands for the
  \<^verbatim>\<open>s != nil\<close> test of the source, which such a call never fails.
\<close>

fun signAll :: "NotaryExt \<Rightarrow> Notary \<Rightarrow> BlockProposal list \<Rightarrow> NtShare list \<times> fault option" where
  "signAll x n [] = ([], None)"
| "signAll x n (bp # bps) =
     (case notarize x n bp of
        Panic f \<Rightarrow> ([], Some f)
      | Err e \<Rightarrow> signAll x n bps
      | Ok s \<Rightarrow> (case signAll x n bps of (out, st) \<Rightarrow> (s # out, st)))"

fun reactLoop :: "NotaryExt \<Rightarrow> Notary \<Rightarrow> 16 word \<Rightarrow> NotaryEvent list \<Rightarrow> NtShare list \<times> NotaryStatus" where
  "reactLoop x n bestRank [] = ([], Waiting)"
| "reactLoop x n bestRank (EvCancelDone # es) = ([], Returned)"
| "reactLoop x n bestRank (EvProposal bp # es) =
     (case Rank x (bp_Owner bp) (bp_Round bp) of
        None \<Rightarrow> reactLoop x n bestRank es
      | Some rank \<Rightarrow>
          if rank \<le> bestRank then
            (case notarize x n bp of
               Panic f \<Rightarrow> ([], Faulted f)
             | Err e \<Rightarrow> reactLoop x n rank es
             | Ok s \<Rightarrow> (case reactLoop x n rank es of (out, st) \<Rightarrow> (s # out, st)))
          else reactLoop x n bestRank es)"
| "reactLoop x n bestRank (EvCtxDone # es) = reactLoop x n bestRank es"
| "reactLoop x n bestRank (EvRecvBestRank # es) = reactLoop x n bestRank es"

definition notarizePhase ::
  "NotaryExt \<Rightarrow> Notary \<Rightarrow> BlockProposal list \<Rightarrow> 16 word \<Rightarrow> NotaryEvent list \<Rightarrow> NtShare list \<times> NotaryStatus" where
  "notarizePhase x n bestRankBPs bestRank es =
     (case signAll x n bestRankBPs of
        (out, Some f) \<Rightarrow> (out, Faulted f)
      | (out, None) \<Rightarrow> (case reactLoop x n bestRank es of (out2, st) \<Rightarrow> (out @ out2, st)))"

fun collectLoop ::
  "NotaryExt \<Rightarrow> Notary \<Rightarrow> BlockProposal list \<Rightarrow> 16 word \<Rightarrow> bool \<Rightarrow> NotaryEvent list
     \<Rightarrow> NtShare list \<times> NotaryStatus" where
  "collectLoop x n bestRankBPs bestRank recvBestRank [] = ([], Waiting)"
| "collectLoop x n bestRankBPs bestRank recvBestRank (EvRecvBestRank # es) =
     (if recvBestRank then notarizePhase x n bestRankBPs bestRank es
      else collectLoop x n bestRankBPs bestRank recvBestRank es)"
| "collectLoop x n bestRankBPs bestRank recvBestRank (EvCtxDone # es) =
     notarizePhase x n bestRankBPs bestRank es"
| "collectLoop x n bestRankBPs bestRank recvBestRank (EvCancelDone # es) = ([], Returned)"
| "collectLoop x n bestRankBPs bestRank recvBestRank (EvProposal bp # es) =
     (case Rank x (bp_Owner bp) (bp_Round bp) of
        None \<Rightarrow> collectLoop x n bestRankBPs bestRank recvBestRank es
      | Some rank \<Rightarrow>
          let recv = (recvBestRank \<or> rank = 0) in
          if bestRankBPs = [] then collectLoop x n [bp] rank recv es
          else if rank < bestRank then collectLoop x n [bp] rank recv es
          else if rank = bestRank then collectLoop x n (bestRankBPs @ [bp]) bestRank recv es
          else collectLoop x n bestRankBPs bestRank recv es)"

definition Notarize :: "NotaryExt \<Rightarrow> Notary \<Rightarrow> NotaryEvent list \<Rightarrow> NtShare list \<times> NotaryStatus" where
  "Notarize x n es = collectLoop x n [] (0xFFFF) False es"

text \<open>
  A share of owner \<open>a\<close> for proposal \<open>h\<close> can no longer be accepted: the proposal
  is registered and either not (or no longer) notarizable or already has a share of \<open>a\<close>.
\<close>

definition shareBlocked :: "Hash \<Rightarrow> Addr \<Rightarrow> Chain \<Rightarrow> bool" where
  "shareBlocked h a c =
     (hashToBP c h \<noteq> None \<and> (\<not> needNotarize c h \<or> ownerSeen a (sharesOf c h)))"

text \<open>
  The part of the round information the committee histories are computed from: the
  histories, the three random streams and the number of groups.
\<close>

definition beaconCore :: "RoundInfo \<Rightarrow> (int list \<times> int list \<times> int list) \<times> (Rand \<times> Rand \<times> Rand) \<times> nat" where
  "beaconCore r = (cmteHistories r, (rbRand r, ntRand r, bpRand r), length (groups r))"

section \<open>Example inputs\<close>

text \<open>
  A stand-in for the external functions, a chain as \<^verbatim>\<open>NewChain\<close> creates it (the
  genesis block alone in the history, threshold 3), and proposals and shares to run the
  operations on.
\<close>

definition demoExt :: Ext where
  "demoExt =
     \<lparr>hashBP = (\<lambda>bp. ''P'' @ bp_Txns bp),
      hashBlock = (\<lambda>b. ''B'' @ blk_BlockProposal b),
      hashNtShare = (\<lambda>s. ''S'' @ nts_Owner s @ nts_BP s),
      encodeBP = (\<lambda>bp f. bp_Txns bp),
      recoverNtSig = (\<lambda>ss. Some (concat (map nts_SigShare ss))),
      sigVerify = (\<lambda>sig pk msg. True),
      sigSerialize = (\<lambda>sig. sig),
      groupPK = (\<lambda>g. if g = 0 then Some ''pk'' else None),
      beaconRound = 2\<rparr>"

definition genesis :: Block where
  "genesis = \<lparr>blk_Owner = zeroAddr, blk_Round = 0, blk_StateRoot = ''r0'',
     blk_BlockProposal = [], blk_PrevBlock = [], blk_SysTxns = [], blk_NotarizationSig = []\<rparr>"

definition demoChain :: Chain where
  "demoChain =
     \<lparr>cfg = \<lparr>GroupThreshold = 3\<rparr>,
      History = [''g''],
      LastHistoryState = Some 0,
      LastHistorySysState = Some 0,
      Finalized = [],
      LastFinalizedState = None,
      LastFinalizedSysState = None,
      Fork = [],
      UnNotarizedNotOnFork = [],
      hashToBlock = [''g'' \<mapsto> genesis],
      hashToBP = Map.empty,
      hashToNtShare = Map.empty,
      bpToNtShares = Map.empty,
      bpNeedNotarize = Map.empty\<rparr>"

definition demoBP :: "Addr \<Rightarrow> Hash \<Rightarrow> bytes \<Rightarrow> BlockProposal" where
  "demoBP a p t = \<lparr>bp_Owner = a, bp_Round = 1, bp_PrevBlock = p, bp_Txns = t, bp_SysTxns = []\<rparr>"

definition demoShare :: "Addr \<Rightarrow> Hash \<Rightarrow> NtShare" where
  "demoShare a h = \<lparr>nts_Round = 1, nts_BP = h, nts_StateRoot = ''r1'', nts_SigShare = a,
     nts_Owner = a, nts_Sig = []\<rparr>"

definition chainP1 :: Chain where
  "chainP1 = snd (addBP demoExt (demoBP ''a'' ''g'' ''1'') 1 demoChain)"


definition demoBeaconExt :: BeaconExt where
  "demoBeaconExt =
     \<lparr>Derive = (\<lambda>r b. take 2 b @ take 2 r),
      Mod = (\<lambda>r n. if n = 0 then 0 else int (length r) mod n),
      hash = (\<lambda>b. b),
      groupThreshold = 3,
      recoverRandBeaconSig = (\<lambda>ss. concat (map rbss_Share ss)),
      encodeRBS = (\<lambda>s f. rbs_LastRandVal s),
      rbVerify = (\<lambda>sig pk msg. True),
      rbSerialize = (\<lambda>sig. sig)\<rparr>"

definition demoGroups :: "Group list" where
  "demoGroups = [\<lparr>grp_PK = ''k0'', grp_Members = [''m1'', ''m2'', ''m3'']\<rparr>,
                 \<lparr>grp_PK = ''k1'', grp_Members = [''m4'', ''m5'', ''m6'']\<rparr>]"

definition demoRoundInfo :: RoundInfo where
  "demoRoundInfo = NewRoundInfo demoBeaconExt ''seed'' demoGroups"

definition demoRBShare :: "Addr \<Rightarrow> RandBeaconSigShare" where
  "demoRBShare a = \<lparr>rbss_Owner = a, rbss_Round = 1, rbss_LastRandVal = ''v0'',
     rbss_Share = a, rbss_OwnerSig = []\<rparr>"

definition demoRBSig :: "int \<Rightarrow> bytes \<Rightarrow> RandBeaconSig" where
  "demoRBSig r s = \<lparr>rbs_Round = r, rbs_LastRandVal = ''v0'', rbs_Sig = s\<rparr>"

definition demoNotaryExt :: NotaryExt where
  "demoNotaryExt =
     \<lparr>Rank = (\<lambda>a r. if a = ''a'' then Some 3 else if a = ''b'' then Some 5
                     else if a = ''c'' then Some 3 else None),
      storeBlock = (\<lambda>h. if h = ''g'' then Some genesis else None),
      BlockState = (\<lambda>h. if h = ''g'' then Some 0 else None),
      CommitTxns = (\<lambda>st t r. Some (st + length t)),
      stateHash = (\<lambda>st. if st = 1 then ''r1'' else ''rx''),
      bpHash = (\<lambda>bp. ''P'' @ bp_Txns bp),
      encodeBlock = (\<lambda>b f. blk_BlockProposal b @ blk_Owner b),
      encodeNtShare = (\<lambda>s f. nts_BP s),
      skSign = (\<lambda>k m. k @ m)\<rparr>"

definition demoNotary :: Notary where
  "demoNotary = \<lparr>n_owner = ''n3'', n_sk = ''sk'', n_share = ''sh''\<rparr>"

definition demoSigned :: "Addr \<Rightarrow> bytes \<Rightarrow> NtShare" where
  "demoSigned a t = \<lparr>nts_Round = 1, nts_BP = ''P'' @ t, nts_StateRoot = ''r1'',
     nts_SigShare = ''sh'' @ ''P'' @ t @ a, nts_Owner = ''n3'', nts_Sig = ''sk'' @ ''P'' @ t\<rparr>"

definition chainP1x2 :: Chain where
  "chainP1x2 = snd (addNtShares demoExt 0 [demoShare ''n1'' ''P1'', demoShare ''n2'' ''P1''] chainP1)"

definition demoBlock :: "Hash \<Rightarrow> Hash \<Rightarrow> Block" where
  "demoBlock bp p = \<lparr>blk_Owner = zeroAddr, blk_Round = 1, blk_StateRoot = ''r1'',
     blk_BlockProposal = bp, blk_PrevBlock = p, blk_SysTxns = [], blk_NotarizationSig = ''sig''\<rparr>"

definition forkedChain :: Chain where
  "forkedChain = chainRun demoExt
     [OpAddBP (demoBP ''a'' ''g'' ''1'') 1, OpAddBlock (demoBlock ''P1'' ''g'') 1,
      OpAddBP (demoBP ''b'' ''g'' ''2'') 1, OpAddBlock (demoBlock ''P2'' ''g'') 1,
      OpAddBP (demoBP ''c'' ''BP2'' ''3'') 1, OpAddBlock (demoBlock ''P3'' ''BP2'') 1,
      OpAddBP (demoBP ''d'' ''BP1'' ''4'') 1] demoChain"

definition twoProposals :: Chain where
  "twoProposals = chainRun demoExt
     [OpAddBP (demoBP ''a'' ''g'' ''1'') 1, OpAddBP (demoBP ''b'' ''g'' ''2'') 1] demoChain"

section \<open>Properties of the chain\<close>

subsection \<open>Notarization shares\<close>

lemma ownerSeen_iff: "ownerSeen a ss \<longleftrightarrow> a \<in> nts_Owner ` set ss"
  by (induction ss) auto









lemma chainP1_eval:
  "hashToBP chainP1 ''P1'' = Some (demoBP ''a'' ''g'' ''1'')"
  "needNotarize chainP1 ''P1''"
  "sharesOf chainP1 ''P1'' = []"
  "GroupThreshold (cfg chainP1) = 3"
  by (simp_all add: chainP1_def addBP_def demoExt_def demoChain_def demoBP_def Let_def
      needNotarize_def sharesOf_def)


lemma blocked_reject:
  assumes "shareBlocked (nts_BP n) (nts_Owner n) c"
  shows "addNtShare x n g c = (Err ErrNoNeedNotarize, c)
       \<or> addNtShare x n g c = (Err ErrNtShareAlreadyReceived, c)"
  using assms by (auto simp: shareBlocked_def addNtShare_def)

lemma accepted_blocked:
  assumes "addNtShare x n g c = (Ok r, c1)"
  shows "shareBlocked (nts_BP n) (nts_Owner n) c1"
  using assms
  by (auto simp: shareBlocked_def addNtShare_def Let_def needNotarize_def sharesOf_def
      ownerSeen_iff split: option.splits if_splits result.splits)

lemma blocked_addBP:
  assumes "shareBlocked h a c"
  shows "shareBlocked h a (snd (addBP x bp w c))"
  using assms
  by (auto simp: shareBlocked_def addBP_def Let_def needNotarize_def sharesOf_def
      split: option.splits if_splits)

lemma blocked_addNtShare:
  assumes "shareBlocked h a c"
  shows "shareBlocked h a (snd (addNtShare x n g c))"
  using assms
  by (auto simp: shareBlocked_def addNtShare_def Let_def needNotarize_def sharesOf_def
      ownerSeen_iff split: option.splits if_splits result.splits)

lemma blocked_addBlock:
  assumes "shareBlocked h a c"
  shows "shareBlocked h a (snd (addBlock x b w c))"
  using assms
  by (auto simp: shareBlocked_def addBlock_def Let_def needNotarize_def sharesOf_def
      split: option.splits if_splits)

lemma blocked_step: "shareBlocked h a c \<Longrightarrow> shareBlocked h a (chainStep x c op)"
  by (cases op) (simp_all add: blocked_addBP blocked_addNtShare blocked_addBlock)

lemma blocked_run: "shareBlocked h a c \<Longrightarrow> shareBlocked h a (chainRun x ops c)"
  unfolding chainRun_def by (induction ops arbitrary: c) (simp_all add: blocked_step)

text \<open>
  C4. Once a share of an owner for a proposal has been accepted (below the threshold or
  completing it), every later share of the same owner for the same proposal, after any
  sequence of chain operations, is refused with an error and leaves the chain, and with it
  the accumulated share list, as it was.
\<close>

theorem ntShare_once_per_owner:
  assumes "addNtShare x n1 g1 c = (Ok r, c1)"
    and "nts_BP n2 = nts_BP n1" and "nts_Owner n2 = nts_Owner n1"
    and "c2 = chainRun x ops c1"
  shows "addNtShare x n2 g2 c2 = (Err ErrNtShareAlreadyReceived, c2)
       \<or> addNtShare x n2 g2 c2 = (Err ErrNoNeedNotarize, c2)"
proof -
  have "shareBlocked (nts_BP n2) (nts_Owner n2) c1"
    using accepted_blocked[OF assms(1)] assms(2,3) by simp
  then have "shareBlocked (nts_BP n2) (nts_Owner n2) c2"
    unfolding assms(4) by (rule blocked_run)
  from blocked_reject[OF this] show ?thesis by blast
qed


theorem ntShare_once_per_owner_witness:
  "fst (addNtShare demoExt (demoShare ''n1'' ''P1'') 0 chainP1) = Ok None
   \<and> (addNtShare demoExt ((demoShare ''n1'' ''P1'')\<lparr>nts_StateRoot := ''r9''\<rparr>) 0
         (chainRun demoExt
            [OpAddNtShare (demoShare ''n2'' ''P1'') 0, OpAddBP (demoBP ''b'' ''g'' ''2'') 1]
            (snd (addNtShare demoExt (demoShare ''n1'' ''P1'') 0 chainP1)))
       = (Err ErrNtShareAlreadyReceived,
          chainRun demoExt
            [OpAddNtShare (demoShare ''n2'' ''P1'') 0, OpAddBP (demoBP ''b'' ''g'' ''2'') 1]
            (snd (addNtShare demoExt (demoShare ''n1'' ''P1'') 0 chainP1)))
      \<or> addNtShare demoExt ((demoShare ''n1'' ''P1'')\<lparr>nts_StateRoot := ''r9''\<rparr>) 0
         (chainRun demoExt
            [OpAddNtShare (demoShare ''n2'' ''P1'') 0, OpAddBP (demoBP ''b'' ''g'' ''2'') 1]
            (snd (addNtShare demoExt (demoShare ''n1'' ''P1'') 0 chainP1)))
       = (Err ErrNoNeedNotarize,
          chainRun demoExt
            [OpAddNtShare (demoShare ''n2'' ''P1'') 0, OpAddBP (demoBP ''b'' ''g'' ''2'') 1]
            (snd (addNtShare demoExt (demoShare ''n1'' ''P1'') 0 chainP1))))"
proof -
  have f: "fst (addNtShare demoExt (demoShare ''n1'' ''P1'') 0 chainP1) = Ok None"
    by (simp add: addNtShare_def chainP1_eval Let_def demoShare_def)
  have h: "addNtShare demoExt (demoShare ''n1'' ''P1'') 0 chainP1
           = (Ok None, snd (addNtShare demoExt (demoShare ''n1'' ''P1'') 0 chainP1))"
    using f by (simp add: prod_eq_iff)
  have e: "nts_BP ((demoShare ''n1'' ''P1'')\<lparr>nts_StateRoot := ''r9''\<rparr>) = nts_BP (demoShare ''n1'' ''P1'')"
    "nts_Owner ((demoShare ''n1'' ''P1'')\<lparr>nts_StateRoot := ''r9''\<rparr>) = nts_Owner (demoShare ''n1'' ''P1'')"
    by simp_all
  from ntShare_once_per_owner[OF h e refl] f show ?thesis by blast
qed

subsection \<open>Block proposals\<close>


section \<open>Properties of the random beacon\<close>

lemma demoRoundInfo_eval:
  "length (nextRBCmteHistory demoRoundInfo) = 1" "curRoundShares demoRoundInfo = []"
  "groups demoRoundInfo = demoGroups"
  by (simp_all add: demoRoundInfo_def NewRoundInfo_def Let_def)

text \<open>
  C9. \<^verbatim>\<open>RecvRandBeaconSigShare\<close> with threshold 3 at a fresh round: the same share of
  the same sender submitted twice is accepted both times and held twice in the
  accumulator, and a third copy reaches the threshold.
\<close>

theorem rbShare_duplicate_counted:
  "fst (RecvRandBeaconSigShare demoBeaconExt (demoRBShare ''m1'') 0 demoRoundInfo) = Ok None
   \<and> fst (RecvRandBeaconSigShare demoBeaconExt (demoRBShare ''m1'') 0
            (snd (RecvRandBeaconSigShare demoBeaconExt (demoRBShare ''m1'') 0 demoRoundInfo)))
       = Ok None
   \<and> curRoundShares
        (snd (RecvRandBeaconSigShare demoBeaconExt (demoRBShare ''m1'') 0
            (snd (RecvRandBeaconSigShare demoBeaconExt (demoRBShare ''m1'') 0 demoRoundInfo))))
       = [demoRBShare ''m1'', demoRBShare ''m1'']
   \<and> fst (RecvRandBeaconSigShare demoBeaconExt (demoRBShare ''m1'') 0
        (snd (RecvRandBeaconSigShare demoBeaconExt (demoRBShare ''m1'') 0
            (snd (RecvRandBeaconSigShare demoBeaconExt (demoRBShare ''m1'') 0 demoRoundInfo)))))
       = Ok (Some \<lparr>rbs_Round = 1, rbs_LastRandVal = ''v0'', rbs_Sig = ''m1m1m1''\<rparr>)"
  by (simp add: RecvRandBeaconSigShare_def demoRoundInfo_eval Let_def randRound_def
      demoBeaconExt_def demoRBShare_def groupAt_def demoGroups_def)

lemma randRound_share: "randRound (snd (RecvRandBeaconSigShare x sh g r)) = randRound r"
  by (simp add: RecvRandBeaconSigShare_def Let_def randRound_def split: option.splits)

text \<open>
  C7. \<^verbatim>\<open>RecvRandBeaconSig\<close> returns an error and the unchanged state when the
  signature's round is not the expected one. Otherwise it returns no error, derives each
  of the three streams with the hash of the signature, appends to each history the new
  stream value modulo the number of groups, and empties the share accumulator, so that
  the round grows by one. \<^verbatim>\<open>RecvRandBeaconSigShare\<close>, the other operation, leaves
  the round as it is.
\<close>

theorem RecvRandBeaconSig_spec:
  "(rbs_Round s \<noteq> randRound r \<longrightarrow>
      RecvRandBeaconSig x s r = (Err (ErrUnexpectedSigRound (rbs_Round s) (randRound r)), r))
   \<and> (rbs_Round s = randRound r \<longrightarrow>
      RecvRandBeaconSig x s r =
        (Ok (),
         r\<lparr>rbRand := Derive x (rbRand r) (hash x (rbs_Sig s)),
           ntRand := Derive x (ntRand r) (hash x (rbs_Sig s)),
           bpRand := Derive x (bpRand r) (hash x (rbs_Sig s)),
           nextRBCmteHistory := nextRBCmteHistory r
              @ [Mod x (Derive x (rbRand r) (hash x (rbs_Sig s))) (int (length (groups r)))],
           nextNtCmteHistory := nextNtCmteHistory r
              @ [Mod x (Derive x (ntRand r) (hash x (rbs_Sig s))) (int (length (groups r)))],
           nextBPCmteHistory := nextBPCmteHistory r
              @ [Mod x (Derive x (bpRand r) (hash x (rbs_Sig s))) (int (length (groups r)))],
           curRoundShares := []\<rparr>)
      \<and> randRound (snd (RecvRandBeaconSig x s r)) = randRound r + 1)
   \<and> randRound (snd (RecvRandBeaconSigShare x sh g r)) = randRound r"
  by (simp add: RecvRandBeaconSig_def deriveRand_def Let_def randRound_def randRound_share[unfolded randRound_def])

theorem RecvRandBeaconSig_spec_witness:
  "rbs_Round (demoRBSig 1 ''ab'') = randRound demoRoundInfo
   \<and> rbs_Round (demoRBSig 7 ''ab'') \<noteq> randRound demoRoundInfo
   \<and> RecvRandBeaconSig demoBeaconExt (demoRBSig 7 ''ab'') demoRoundInfo
       = (Err (ErrUnexpectedSigRound 7 1), demoRoundInfo)
   \<and> fst (RecvRandBeaconSig demoBeaconExt (demoRBSig 1 ''ab'') demoRoundInfo) = Ok ()
   \<and> randRound (snd (RecvRandBeaconSig demoBeaconExt (demoRBSig 1 ''ab'') demoRoundInfo)) = 2"
  using RecvRandBeaconSig_spec [of "demoRBSig 1 ''ab''" demoRoundInfo demoBeaconExt]
    RecvRandBeaconSig_spec [of "demoRBSig 7 ''ab''" demoRoundInfo demoBeaconExt]
  by (simp add: demoRoundInfo_eval demoRBSig_def randRound_def)

lemma core_share: "beaconCore (snd (RecvRandBeaconSigShare x sh g r)) = beaconCore r"
  by (simp add: RecvRandBeaconSigShare_def Let_def randRound_def beaconCore_def
      cmteHistories_def split: option.splits)

lemma core_sig:
  "beaconCore r = beaconCore r' \<Longrightarrow>
   beaconCore (snd (RecvRandBeaconSig x s r)) = beaconCore (snd (RecvRandBeaconSig x s r'))"
  by (simp add: RecvRandBeaconSig_def deriveRand_def Let_def randRound_def beaconCore_def
      cmteHistories_def)

lemma core_run:
  "beaconCore r = beaconCore r' \<Longrightarrow>
   beaconCore (beaconRun x es r) = beaconCore (beaconRun x (map EvSig (sigsOf es)) r')"
proof (induction es arbitrary: r r')
  case Nil
  then show ?case by (simp add: beaconRun_def)
next
  case (Cons e es)
  show ?case
  proof (cases e)
    case (EvSigShare sh g)
    have "beaconCore (snd (RecvRandBeaconSigShare x sh g r)) = beaconCore r'"
      using Cons.prems by (simp add: core_share)
    from Cons.IH[OF this] show ?thesis using EvSigShare by (simp add: beaconRun_def)
  next
    case (EvSig s)
    from Cons.IH[OF core_sig[OF Cons.prems, of x s]] show ?thesis
      using EvSig by (simp add: beaconRun_def)
  qed
qed

text \<open>
  C5. Two instances created from the same seed and group list and fed the same sequence
  of aggregate signatures have the same three committee histories, whatever signature
  shares each of them receives in between. As this holds for every sequence, it holds
  after every step.
\<close>

theorem beacon_two_run_determinism:
  assumes "sigsOf es1 = sigsOf es2"
  shows "cmteHistories (beaconRun x es1 (NewRoundInfo x seed gs))
       = cmteHistories (beaconRun x es2 (NewRoundInfo x seed gs))"
proof -
  have "beaconCore (beaconRun x es1 (NewRoundInfo x seed gs))
      = beaconCore (beaconRun x es2 (NewRoundInfo x seed gs))"
    using core_run[OF refl, of x es1 "NewRoundInfo x seed gs"]
      core_run[OF refl, of x es2 "NewRoundInfo x seed gs"] assms by simp
  then show ?thesis by (simp add: beaconCore_def)
qed

theorem beacon_two_run_determinism_witness:
  "sigsOf [EvSigShare (demoRBShare ''m1'') 0, EvSig (demoRBSig 1 ''ab''), EvSig (demoRBSig 2 ''cd'')]
     = sigsOf [EvSig (demoRBSig 1 ''ab''), EvSigShare (demoRBShare ''m2'') 0, EvSig (demoRBSig 2 ''cd'')]
   \<and> cmteHistories (beaconRun demoBeaconExt
        [EvSigShare (demoRBShare ''m1'') 0, EvSig (demoRBSig 1 ''ab''), EvSig (demoRBSig 2 ''cd'')]
        (NewRoundInfo demoBeaconExt ''seed'' demoGroups))
     = cmteHistories (beaconRun demoBeaconExt
        [EvSig (demoRBSig 1 ''ab''), EvSigShare (demoRBShare ''m2'') 0, EvSig (demoRBSig 2 ''cd'')]
        (NewRoundInfo demoBeaconExt ''seed'' demoGroups))"
  using beacon_two_run_determinism [of
      "[EvSigShare (demoRBShare ''m1'') 0, EvSig (demoRBSig 1 ''ab''), EvSig (demoRBSig 2 ''cd'')]"
      "[EvSig (demoRBSig 1 ''ab''), EvSigShare (demoRBShare ''m2'') 0, EvSig (demoRBSig 2 ''cd'')]"
      demoBeaconExt "''seed''" demoGroups]
  by simp

section \<open>Properties of the notary\<close>

lemma demo_notarize:
  "notarize demoNotaryExt demoNotary (demoBP a ''g'' [t]) = Ok (demoSigned a [t])"
  by (simp add: notarize_def demoNotaryExt_def demoNotary_def demoBP_def demoSigned_def
      notarizeBlk_def Let_def)

text \<open>
  C6. Two proposals arrive and then the soft deadline fires. With ranks 3 and 5, in either
  order of arrival, the share for the rank-3 proposal is the only one handed to
  \<^verbatim>\<open>onNotarize\<close>; with ranks 3 and 3 the shares for both are, in arrival order.
\<close>

theorem Notarize_best_rank:
  "(Rank x (bp_Owner a) (bp_Round a) = Some 3 \<and> Rank x (bp_Owner b) (bp_Round b) = Some 5
      \<and> notarize x n a = Ok sa \<longrightarrow>
        Notarize x n [EvProposal a, EvProposal b, EvCtxDone] = ([sa], Waiting)
      \<and> Notarize x n [EvProposal b, EvProposal a, EvCtxDone] = ([sa], Waiting))
   \<and> (Rank x (bp_Owner a) (bp_Round a) = Some 3 \<and> Rank x (bp_Owner b) (bp_Round b) = Some 3
      \<and> notarize x n a = Ok sa \<and> notarize x n b = Ok sb \<longrightarrow>
        Notarize x n [EvProposal a, EvProposal b, EvCtxDone] = ([sa, sb], Waiting))"
  by (simp add: Notarize_def notarizePhase_def)

theorem Notarize_best_rank_witness:
  "Notarize demoNotaryExt demoNotary
      [EvProposal (demoBP ''a'' ''g'' ''1''), EvProposal (demoBP ''b'' ''g'' ''2''), EvCtxDone]
     = ([demoSigned ''a'' ''1''], Waiting)
   \<and> Notarize demoNotaryExt demoNotary
      [EvProposal (demoBP ''b'' ''g'' ''2''), EvProposal (demoBP ''a'' ''g'' ''1''), EvCtxDone]
     = ([demoSigned ''a'' ''1''], Waiting)
   \<and> Notarize demoNotaryExt demoNotary
      [EvProposal (demoBP ''a'' ''g'' ''1''), EvProposal (demoBP ''c'' ''g'' ''3''), EvCtxDone]
     = ([demoSigned ''a'' ''1'', demoSigned ''c'' ''3''], Waiting)"
proof -
  have r: "Rank demoNotaryExt (bp_Owner (demoBP ''a'' ''g'' ''1'')) (bp_Round (demoBP ''a'' ''g'' ''1'')) = Some 3"
    "Rank demoNotaryExt (bp_Owner (demoBP ''b'' ''g'' ''2'')) (bp_Round (demoBP ''b'' ''g'' ''2'')) = Some 5"
    "Rank demoNotaryExt (bp_Owner (demoBP ''c'' ''g'' ''3'')) (bp_Round (demoBP ''c'' ''g'' ''3'')) = Some 3"
    by (simp_all add: demoNotaryExt_def demoBP_def)
  show ?thesis
    using Notarize_best_rank [of demoNotaryExt "demoBP ''a'' ''g'' ''1''" "demoBP ''b'' ''g'' ''2''"
        demoNotary "demoSigned ''a'' ''1''" "demoSigned ''b'' ''2''"]
      Notarize_best_rank [of demoNotaryExt "demoBP ''a'' ''g'' ''1''" "demoBP ''c'' ''g'' ''3''"
        demoNotary "demoSigned ''a'' ''1''" "demoSigned ''c'' ''3''"]
      r demo_notarize [of "''a''" "CHR ''1''"] demo_notarize [of "''c''" "CHR ''3''"]
    by simp
qed

text \<open>
  C10. The block \<^verbatim>\<open>addNtShare\<close> returns at the threshold has the zero address as its
  owner, while the tentative block whose encoding \<^verbatim>\<open>notarize\<close> signs with the group key
  share has the proposal's owner; for a proposal with a non-zero owner the two blocks
  differ.
\<close>

theorem ntBlock_owner_differs:
  assumes "hashToBP c (nts_BP n) = Some bp"
    and "addNtShare x n g c = (Ok (Some b), c')"
    and "notarize y nt bp = Ok s"
    and "bp_Owner bp \<noteq> zeroAddr"
  shows "blk_Owner b = zeroAddr
       \<and> nts_SigShare s
           = skSign y (n_share nt) (encodeBlock y (notarizeBlk y bp (nts_StateRoot s)) False)
       \<and> blk_Owner (notarizeBlk y bp (nts_StateRoot s)) = bp_Owner bp
       \<and> b \<noteq> notarizeBlk y bp (nts_StateRoot s)"
proof -
  have b: "blk_Owner b = zeroAddr"
    using assms(1,2)
    by (auto simp: addNtShare_def Let_def ntBlock_def split: if_splits option.splits result.splits)
  have s: "nts_SigShare s
           = skSign y (n_share nt) (encodeBlock y (notarizeBlk y bp (nts_StateRoot s)) False)"
    using assms(3) by (auto simp: notarize_def Let_def split: option.splits)
  have o: "blk_Owner (notarizeBlk y bp (nts_StateRoot s)) = bp_Owner bp"
    by (simp add: notarizeBlk_def)
  from b o assms(4) have "b \<noteq> notarizeBlk y bp (nts_StateRoot s)" by auto
  with b s o show ?thesis by simp
qed

lemma chainP1_fields:
  "hashToBP chainP1 ''P1'' = Some (demoBP ''a'' ''g'' ''1'')"
  "bpNeedNotarize chainP1 ''P1'' = Some True"
  "bpToNtShares chainP1 ''P1'' = None"
  "cfg chainP1 = \<lparr>GroupThreshold = 3\<rparr>"
  by (simp_all add: chainP1_def addBP_def demoExt_def demoChain_def demoBP_def Let_def)

lemma chainP1x2_eval:
  "hashToBP chainP1x2 ''P1'' = Some (demoBP ''a'' ''g'' ''1'')"
  "needNotarize chainP1x2 ''P1''"
  "sharesOf chainP1x2 ''P1'' = [demoShare ''n1'' ''P1'', demoShare ''n2'' ''P1'']"
  "GroupThreshold (cfg chainP1x2) = 3"
  by (simp_all add: chainP1x2_def addNtShare_def chainP1_fields Let_def demoShare_def
      needNotarize_def sharesOf_def)

theorem ntBlock_owner_differs_witness:
  "fst (addNtShare demoExt (demoSigned ''a'' ''1'') 0 chainP1x2)
     = Ok (Some \<lparr>blk_Owner = zeroAddr, blk_Round = 1, blk_StateRoot = ''r1'',
               blk_BlockProposal = ''P1'', blk_PrevBlock = ''g'', blk_SysTxns = [],
               blk_NotarizationSig = ''n1n2shP1a''\<rparr>)
   \<and> notarizeBlk demoNotaryExt (demoBP ''a'' ''g'' ''1'') ''r1''
     = \<lparr>blk_Owner = ''a'', blk_Round = 1, blk_StateRoot = ''r1'',
               blk_BlockProposal = ''P1'', blk_PrevBlock = ''g'', blk_SysTxns = [],
               blk_NotarizationSig = []\<rparr>
   \<and> \<lparr>blk_Owner = zeroAddr, blk_Round = 1, blk_StateRoot = ''r1'',
               blk_BlockProposal = ''P1'', blk_PrevBlock = ''g'', blk_SysTxns = [],
               blk_NotarizationSig = ''n1n2shP1a''\<rparr>
      \<noteq> notarizeBlk demoNotaryExt (demoBP ''a'' ''g'' ''1'') ''r1''"
proof -
  let ?b = "\<lparr>blk_Owner = zeroAddr, blk_Round = 1, blk_StateRoot = ''r1'',
               blk_BlockProposal = ''P1'', blk_PrevBlock = ''g'', blk_SysTxns = [],
               blk_NotarizationSig = ''n1n2shP1a''\<rparr>"
  have f: "fst (addNtShare demoExt (demoSigned ''a'' ''1'') 0 chainP1x2) = Ok (Some ?b)"
    by (simp add: addNtShare_def chainP1x2_eval Let_def demoSigned_def demoShare_def
        demoExt_def validateGroupSig_def ntBlock_def demoBP_def)
  have h: "addNtShare demoExt (demoSigned ''a'' ''1'') 0 chainP1x2
           = (Ok (Some ?b), snd (addNtShare demoExt (demoSigned ''a'' ''1'') 0 chainP1x2))"
    using f by (simp add: prod_eq_iff)
  have p: "hashToBP chainP1x2 (nts_BP (demoSigned ''a'' ''1'')) = Some (demoBP ''a'' ''g'' ''1'')"
    by (simp add: demoSigned_def chainP1x2_eval)
  have z: "bp_Owner (demoBP ''a'' ''g'' ''1'') \<noteq> zeroAddr"
    by (simp add: demoBP_def zeroAddr_def eval_nat_numeral)
  have r: "nts_StateRoot (demoSigned ''a'' ''1'') = ''r1''" by (simp add: demoSigned_def)
  have k: "notarizeBlk demoNotaryExt (demoBP ''a'' ''g'' ''1'') ''r1''
     = \<lparr>blk_Owner = ''a'', blk_Round = 1, blk_StateRoot = ''r1'',
               blk_BlockProposal = ''P1'', blk_PrevBlock = ''g'', blk_SysTxns = [],
               blk_NotarizationSig = []\<rparr>"
    by (simp add: notarizeBlk_def demoNotaryExt_def demoBP_def)
  from ntBlock_owner_differs [OF p h demo_notarize [of "''a''" "CHR ''1''"] z] f k r
  show ?thesis by simp
qed

section \<open>Properties of the round\<close>

subsection \<open>The height of the fork tree\<close>

lemma forkDepth_nonneg: "0 \<le> forkDepth ns"
  by (induction ns rule: forkDepth.induct) auto

lemma maxHeightLoop_forkDepth: "0 \<le> mx \<Longrightarrow> maxHeightLoop mx ns = max mx (forkDepth ns)"
proof (induction mx ns rule: maxHeightLoop.induct)
  case (1 mx)
  then show ?case by simp
next
  case (2 mx b w ch un bp st sy ns)
  define k where "k = maxHeightLoop 0 ch + 1"
  have ch: "maxHeightLoop 0 ch = forkDepth ch"
    using "2.IH"(1) forkDepth_nonneg[of ch] by simp
  have k: "k = forkDepth ch + 1" by (simp add: k_def ch)
  have nn: "0 \<le> (if mx < k then k else mx)"
    using "2.prems" forkDepth_nonneg[of ch] k by simp
  have "maxHeightLoop mx (Notarized b w ch un bp st sy # ns)
      = maxHeightLoop (if mx < k then k else mx) ns"
    by (simp add: k_def Let_def)
  also have "\<dots> = max (if mx < k then k else mx) (forkDepth ns)"
    by (rule "2.IH"(2)[OF k_def nn])
  also have "\<dots> = max mx (forkDepth (Notarized b w ch un bp st sy # ns))"
    using k by (simp add: max_def)
  finally show ?case .
qed

lemma maxHeight_forkDepth: "maxHeight ns = forkDepth ns"
  using maxHeightLoop_forkDepth[of 0 ns] forkDepth_nonneg[of ns] by (simp add: maxHeight_def)

lemma forkDepth_append: "forkDepth (xs @ ys) = max (forkDepth xs) (forkDepth ys)"
  using forkDepth_nonneg[of ys]
  by (induction xs rule: forkDepth.induct) (auto simp: max_def)

lemma find_None_iff: "findPrevBlock p ns = None \<longleftrightarrow> findDepth p ns = None"
  by (induction p ns rule: findPrevBlock.induct) (auto split: option.splits)

lemma findDepth_bounds: "findDepth p ns = Some d \<Longrightarrow> 1 \<le> d \<and> d \<le> forkDepth ns"
proof (induction p ns arbitrary: d rule: findDepth.induct)
  case (1 p)
  then show ?case by simp
next
  case (2 p b w ch un bp st sy ns)
  then show ?case
    using forkDepth_nonneg[of ch] forkDepth_nonneg[of ns]
    by (fastforce split: if_splits option.splits)
qed

lemma forkDepth_appendNonNt:
  "forkDepth (updatePrev p (appendNonNtChild u) ns) = forkDepth ns"
  by (induction p "appendNonNtChild u" ns rule: updatePrev.induct)
     (auto split: option.splits)

lemma forkDepth_updatePrev_nt:
  assumes "findDepth p ns = Some d" and "f = appendNtChild (Notarized h w0 [] [] bp0 st0 sy0)"
  shows "forkDepth (updatePrev p f ns) = max (forkDepth ns) (d + 1)"
  using assms
proof (induction p f ns arbitrary: d rule: updatePrev.induct)
  case (1 p f)
  then show ?case by simp
next
  case (2 p f b w ch un bp st sy ns)
  note f = "2.prems"(2)
  show ?case
  proof (cases "b = p")
    case True
    then show ?thesis using "2.prems" forkDepth_nonneg[of ch] forkDepth_nonneg[of ns]
      by (simp add: forkDepth_append max_def)
  next
    case False
    show ?thesis
    proof (cases "findDepth p ch")
      case None
      then have fp: "findPrevBlock p ch = None" by (simp add: find_None_iff)
      have dn: "findDepth p ns = Some d" using "2.prems" False None by simp
      from "2.IH"(1)[OF False fp dn f] show ?thesis
        using False fp by (simp add: max_def)
    next
      case (Some d')
      then obtain n where fp: "findPrevBlock p ch = Some n"
        using find_None_iff[of p ch] by (cases "findPrevBlock p ch") auto
      have dd: "d = d' + 1" using "2.prems" False Some by simp
      from "2.IH"(2)[OF False fp Some f] show ?thesis
        using False fp dd findDepth_bounds[OF Some] by (simp add: max_def)
    qed
  qed
qed

lemma forkDepth_appendNt:
  "findDepth p ns = Some d \<Longrightarrow>
   forkDepth (updatePrev p (appendNtChild (Notarized h w0 [] [] bp0 st0 sy0)) ns)
     = max (forkDepth ns) (d + 1)"
  by (rule forkDepth_updatePrev_nt) simp_all


lemma Round_forkDepth:
  "Round c = int (length (History c)) + int (length (Finalized c)) + forkDepth (Fork c)"
  by (simp add: Round_def maxHeight_forkDepth)

lemma addBP_Round: "Round (snd (addBP x bp w c)) = Round c"
  by (simp add: addBP_def Let_def Round_forkDepth forkDepth_appendNonNt)

lemma addNtShare_Round: "Round (snd (addNtShare x n g c)) = Round c"
  by (simp add: addNtShare_def Let_def Round_forkDepth split: option.splits result.splits)

lemma addBlock_ok_frame:
  assumes "addBlock x b w c = (Ok s, c')"
  shows "History c' = History c \<and> Finalized c' = Finalized c
       \<and> hashToBlock c (hashBlock x b) = None
       \<and> hashToBlock c' = (hashToBlock c)(hashBlock x b \<mapsto> b)"
  using assms
  by (auto simp: addBlock_def Let_def split: option.splits if_splits)

lemma addBlock_fail_same:
  assumes "addBlock x b w c = (r, c')" and "\<forall>s. r \<noteq> Ok s"
  shows "c' = c"
  using assms
  by (auto simp: addBlock_def Let_def split: option.splits if_splits)

lemma addBlock_ok_forkDepth:
  assumes "addBlock x b w c = (Ok s, c')"
  shows "forkDepth (Fork c')
           = max (forkDepth (Fork c)) (parentDepth (blk_PrevBlock b) (Fork c) + 1)"
proof (cases "findDepth (blk_PrevBlock b) (Fork c)")
  case None
  then have "findPrevBlock (blk_PrevBlock b) (Fork c) = None" by (simp add: find_None_iff)
  then show ?thesis using assms None forkDepth_nonneg[of "Fork c"]
    by (auto simp: addBlock_def Let_def forkDepth_append parentDepth_def max_def
        split: if_splits)
next
  case (Some d)
  then obtain n where "findPrevBlock (blk_PrevBlock b) (Fork c) = Some n"
    using find_None_iff[of "blk_PrevBlock b" "Fork c"]
    by (cases "findPrevBlock (blk_PrevBlock b) (Fork c)") auto
  then show ?thesis using assms Some
    by (auto simp: addBlock_def Let_def forkDepth_appendNt[OF Some] parentDepth_def
        split: if_splits)
qed

lemma addBlock_ok_Round:
  assumes "addBlock x b w c = (Ok s, c')"
  shows "Round c' = max (Round c)
           (int (length (History c)) + int (length (Finalized c))
            + parentDepth (blk_PrevBlock b) (Fork c) + 1)"
  using addBlock_ok_frame[OF assms] addBlock_ok_forkDepth[OF assms]
  by (simp add: Round_forkDepth max_def)

lemma addBlock_Round: "Round c \<le> Round (snd (addBlock x b w c))"
proof (cases "addBlock x b w c")
  case (Pair r c')
  show ?thesis
  proof (cases "\<exists>s. r = Ok s")
    case True
    then obtain s where "addBlock x b w c = (Ok s, c')" using Pair by auto
    from addBlock_ok_Round[OF this] show ?thesis using Pair by simp
  next
    case False
    then have "c' = c" using addBlock_fail_same[OF Pair] by simp
    then show ?thesis using Pair by simp
  qed
qed

lemma chainStep_Round: "Round c \<le> Round (chainStep x c op)"
  by (cases op) (simp_all add: addBP_Round addNtShare_Round addBlock_Round)

lemma chainRun_Round: "Round c \<le> Round (chainRun x ops c)"
  unfolding chainRun_def
proof (induction ops arbitrary: c)
  case Nil
  then show ?case by simp
next
  case (Cons op ops)
  have "Round c \<le> Round (chainStep x c op)" by (rule chainStep_Round)
  also have "\<dots> \<le> Round (foldl (chainStep x) (chainStep x c op) ops)" by (rule Cons.IH)
  finally show ?case by simp
qed

lemma twoProposals_eval:
  "History twoProposals = [''g'']" "Finalized twoProposals = []" "Fork twoProposals = []"
  "hashToBlock twoProposals ''BP1'' = None" "hashToBlock twoProposals ''BP2'' = None"
  "hashToBP twoProposals ''P1'' = Some (demoBP ''a'' ''g'' ''1'')"
  "hashToBP twoProposals ''P2'' = Some (demoBP ''b'' ''g'' ''2'')"
  by (simp_all add: twoProposals_def chainRun_def addBP_def Let_def demoExt_def
      demoChain_def demoBP_def)


text \<open>
  C3. \<^verbatim>\<open>Round()\<close> is the length of the history plus the length of the finalized list
  plus the depth of the fork tree (0 for an empty fork). It never decreases along a
  sequence of \<^verbatim>\<open>addBP\<close>, \<^verbatim>\<open>addNtShare\<close> and \<^verbatim>\<open>addBlock\<close> calls, and a block that
  \<^verbatim>\<open>addBlock\<close> appends under a parent at the deepest position of the fork tree (under the
  finalized or history tail when the fork is empty) advances it by exactly one.
\<close>

theorem Round_monotone:
  "Round c = int (length (History c)) + int (length (Finalized c)) + forkDepth (Fork c)
   \<and> Round c \<le> Round (chainRun x ops c)
   \<and> (addBlock x b w c = (Ok s, c')
        \<and> parentDepth (blk_PrevBlock b) (Fork c) = maxHeight (Fork c)
      \<longrightarrow> Round c' = Round c + 1)"
proof -
  have "Round c' = Round c + 1"
    if "addBlock x b w c = (Ok s, c')"
      and "parentDepth (blk_PrevBlock b) (Fork c) = maxHeight (Fork c)"
    using addBlock_ok_Round[OF that(1)] that(2)
    by (simp add: Round_forkDepth maxHeight_forkDepth)
  then show ?thesis using Round_forkDepth[of c] chainRun_Round[of c x ops] by blast
qed


theorem Round_monotone_witness:
  "fst (addBlock demoExt (demoBlock ''P1'' ''g'') 1 twoProposals) = Ok True
   \<and> parentDepth (blk_PrevBlock (demoBlock ''P1'' ''g'')) (Fork twoProposals)
       = maxHeight (Fork twoProposals)
   \<and> Round twoProposals = 1
   \<and> Round (snd (addBlock demoExt (demoBlock ''P1'' ''g'') 1 twoProposals)) = 2"
proof -
  have f: "fst (addBlock demoExt (demoBlock ''P1'' ''g'') 1 twoProposals) = Ok True"
    by (simp add: addBlock_def Let_def twoProposals_eval demoExt_def demoBlock_def Round_def
        maxHeight_def)
  have h: "addBlock demoExt (demoBlock ''P1'' ''g'') 1 twoProposals
           = (Ok True, snd (addBlock demoExt (demoBlock ''P1'' ''g'') 1 twoProposals))"
    using f by (simp add: prod_eq_iff)
  have d: "parentDepth (blk_PrevBlock (demoBlock ''P1'' ''g'')) (Fork twoProposals)
       = maxHeight (Fork twoProposals)"
    by (simp add: twoProposals_eval parentDepth_def maxHeight_def)
  have r: "Round twoProposals = 1"
    by (simp add: twoProposals_eval Round_def maxHeight_def)
  from Round_monotone [of twoProposals demoExt "[]" "demoBlock ''P1'' ''g''" 1 True
      "snd (addBlock demoExt (demoBlock ''P1'' ''g'') 1 twoProposals)"] h d r f
  show ?thesis by simp
qed

subsection \<open>Appending a chain of blocks\<close>

lemma findDepth_notin: "h \<notin> set (forkBlocks ns) \<Longrightarrow> findDepth h ns = None"
  by (induction h ns rule: findDepth.induct) auto

lemma findDepth_append:
  "findDepth h (xs @ ys) = (case findDepth h xs of Some d \<Rightarrow> Some d | None \<Rightarrow> findDepth h ys)"
  by (induction h xs rule: findDepth.induct) (auto split: option.splits)

lemma forkBlocks_append: "forkBlocks (xs @ ys) = forkBlocks xs @ forkBlocks ys"
  by (induction xs rule: forkBlocks.induct) auto

lemma forkBlocks_updatePrev:
  "f = appendNtChild (Notarized h w0 [] [] bp0 st0 sy0) \<Longrightarrow>
   set (forkBlocks (updatePrev p f ns)) \<subseteq> insert h (set (forkBlocks ns))"
  by (induction p f ns rule: updatePrev.induct)
     (auto simp: forkBlocks_append split: option.splits)

lemma forkDepth_zero: "forkDepth ns = 0 \<longleftrightarrow> ns = []"
proof (cases ns)
  case Nil
  then show ?thesis by simp
next
  case (Cons n ms)
  then show ?thesis
    using forkDepth_nonneg[of "nt_NtChildren n"] forkDepth_nonneg[of ms]
    by (cases n) (simp add: max_def)
qed

lemma findDepth_new:
  assumes "findDepth p ns = Some d" and "h \<notin> set (forkBlocks ns)"
    and "f = appendNtChild (Notarized h w0 [] [] bp0 st0 sy0)"
  shows "findDepth h (updatePrev p f ns) = Some (d + 1)"
  using assms
proof (induction p f ns arbitrary: d rule: updatePrev.induct)
  case (1 p f)
  then show ?case by simp
next
  case (2 p f b w ch un bp st sy ns)
  note f = "2.prems"(3)
  have hb: "h \<noteq> b" and hch: "h \<notin> set (forkBlocks ch)" and hns: "h \<notin> set (forkBlocks ns)"
    using "2.prems"(2) by auto
  show ?case
  proof (cases "b = p")
    case True
    then show ?thesis using "2.prems"(1) hb f
      by (simp add: findDepth_append findDepth_notin[OF hch])
  next
    case False
    show ?thesis
    proof (cases "findDepth p ch")
      case None
      then have fp: "findPrevBlock p ch = None" by (simp add: find_None_iff)
      have dn: "findDepth p ns = Some d" using "2.prems"(1) False None by simp
      from "2.IH"(1)[OF False fp dn hns f] show ?thesis
        using False fp hb by (simp add: findDepth_notin[OF hch])
    next
      case (Some d')
      then obtain n where fp: "findPrevBlock p ch = Some n"
        using find_None_iff[of p ch] by (cases "findPrevBlock p ch") auto
      have dd: "d = d' + 1" using "2.prems"(1) False Some by simp
      from "2.IH"(2)[OF False fp Some hch f] show ?thesis
        using False fp dd hb by simp
    qed
  qed
qed

lemma addBlock_ok_indexed:
  assumes "addBlock x b w c = (Ok s, c')" and "forkIndexed c"
  shows "forkIndexed c'"
proof -
  have sub: "set (forkBlocks (Fork c')) \<subseteq> insert (hashBlock x b) (set (forkBlocks (Fork c)))"
    using assms(1)
    by (auto simp: addBlock_def Let_def forkBlocks_append split: option.splits if_splits
        dest: subsetD[OF forkBlocks_updatePrev[OF refl]])
  have "hashToBlock c' = (hashToBlock c)(hashBlock x b \<mapsto> b)"
    using addBlock_ok_frame[OF assms(1)] by simp
  then show ?thesis using sub assms(2) by (auto simp: forkIndexed_def list_all_iff)
qed

lemma addBlock_ok_tip:
  assumes "addBlock x b w c = (Ok s, c')" and "forkIndexed c"
    and "parentDepth (blk_PrevBlock b) (Fork c) = forkDepth (Fork c)"
  shows "parentDepth (hashBlock x b) (Fork c') = forkDepth (Fork c')"
proof -
  have fresh: "hashBlock x b \<notin> set (forkBlocks (Fork c))"
    using addBlock_ok_frame[OF assms(1)] assms(2) by (auto simp: forkIndexed_def list_all_iff)
  show ?thesis
  proof (cases "findDepth (blk_PrevBlock b) (Fork c)")
    case None
    then have fp: "findPrevBlock (blk_PrevBlock b) (Fork c) = None" by (simp add: find_None_iff)
    have "Fork c = []" using assms(3) None by (simp add: parentDepth_def forkDepth_zero)
    then show ?thesis using assms(1) fp
      by (auto simp: addBlock_def Let_def parentDepth_def split: if_splits)
  next
    case (Some d)
    then obtain n where fp: "findPrevBlock (blk_PrevBlock b) (Fork c) = Some n"
      using find_None_iff[of "blk_PrevBlock b" "Fork c"]
      by (cases "findPrevBlock (blk_PrevBlock b) (Fork c)") auto
    have d: "d = forkDepth (Fork c)" using assms(3) Some by (simp add: parentDepth_def)
    have "findDepth (hashBlock x b) (Fork c') = Some (d + 1)"
      using assms(1) fp findDepth_new[OF Some fresh refl]
      by (auto simp: addBlock_def Let_def split: if_splits)
    moreover have "forkDepth (Fork c') = d + 1"
      using addBlock_ok_forkDepth[OF assms(1)] Some d by (simp add: parentDepth_def)
    ultimately show ?thesis by (simp add: parentDepth_def)
  qed
qed

lemma addBlocks_Round:
  assumes "forkIndexed c" and "extendsTip x p bs"
    and "parentDepth p (Fork c) = forkDepth (Fork c)"
    and "addBlocks x bs c = Some c'"
  shows "Round c' = Round c + int (length bs)"
  using assms
proof (induction bs arbitrary: c p)
  case Nil
  then show ?case by simp
next
  case (Cons bw bs)
  obtain b w where bw: "bw = (b, w)" by (cases bw)
  obtain r c1 where step: "addBlock x b w c = (r, c1)" by (cases "addBlock x b w c")
  then obtain s where ok: "r = Ok s" and rest: "addBlocks x bs c1 = Some c'"
    using Cons.prems(4) bw by (cases r) auto
  have p: "blk_PrevBlock b = p" and ext: "extendsTip x (hashBlock x b) bs"
    using Cons.prems(2) bw by auto
  have st: "addBlock x b w c = (Ok s, c1)" using step ok by simp
  have tip: "parentDepth (blk_PrevBlock b) (Fork c) = forkDepth (Fork c)"
    using Cons.prems(3) p by simp
  have r1: "Round c1 = Round c + 1"
    using addBlock_ok_Round[OF st] tip by (simp add: Round_forkDepth)
  have "Round c' = Round c1 + int (length bs)"
    by (rule Cons.IH[OF addBlock_ok_indexed[OF st Cons.prems(1)] ext
          addBlock_ok_tip[OF st Cons.prems(1) tip] rest])
  then show ?case using r1 by simp
qed


lemma forkBlocks_appendNonNt:
  "forkBlocks (updatePrev p (appendNonNtChild u) ns) = forkBlocks ns"
  by (induction p "appendNonNtChild u" ns rule: updatePrev.induct)
     (auto split: option.splits)

lemma chainStep_indexed: "forkIndexed c \<Longrightarrow> forkIndexed (chainStep x c op)"
proof (cases op)
  case (OpAddBP bp w)
  assume "forkIndexed c"
  then show ?thesis using OpAddBP
    by (simp add: addBP_def Let_def forkIndexed_def forkBlocks_appendNonNt)
next
  case (OpAddNtShare n g)
  assume "forkIndexed c"
  then show ?thesis using OpAddNtShare
    by (simp add: addNtShare_def Let_def forkIndexed_def split: option.splits result.splits)
next
  case (OpAddBlock b w)
  assume ix: "forkIndexed c"
  obtain r c1 where st: "addBlock x b w c = (r, c1)" by (cases "addBlock x b w c")
  show ?thesis
  proof (cases "\<exists>s. r = Ok s")
    case True
    then show ?thesis using addBlock_ok_indexed[OF _ ix] st OpAddBlock by auto
  next
    case False
    then have "c1 = c" using addBlock_fail_same[OF st] by simp
    then show ?thesis using ix st OpAddBlock by simp
  qed
qed

lemma chainRun_indexed: "forkIndexed c \<Longrightarrow> forkIndexed (chainRun x ops c)"
  unfolding chainRun_def by (induction ops arbitrary: c) (simp_all add: chainStep_indexed)

lemma forkedChain_eval:
  "History forkedChain = [''g'']" "Finalized forkedChain = []"
  "Fork forkedChain =
     [Notarized ''BP1'' 1 [] [\<lparr>un_BP = ''P4'', un_Weight = 1\<rparr>] ''P1'' (Some 0) (Some 0),
      Notarized ''BP2'' 1
        [Notarized ''BP3'' 1 [] [] ''P3'' (Some 0) (Some 0)]
        [\<lparr>un_BP = ''P3'', un_Weight = 1\<rparr>] ''P2'' (Some 0) (Some 0)]"
  "hashToBlock forkedChain ''BP1'' = Some (demoBlock ''P1'' ''g'')"
  "hashToBlock forkedChain ''BP4'' = None"
  "hashToBP forkedChain ''P4'' = Some (demoBP ''d'' ''BP1'' ''4'')"
  by (simp_all add: forkedChain_def chainRun_def addBP_def addBlock_def Let_def demoExt_def
      demoChain_def demoBP_def demoBlock_def Round_def maxHeight_def)

text \<open>
  The leader's tip need not be at the deepest position. In \<open>forkedChain\<close> the fork has the
  roots \<open>BP1\<close> and \<open>BP2\<close>, and \<open>BP2\<close> has the child \<open>BP3\<close>; \<^verbatim>\<open>Leader\<close> follows the
  first root and returns block \<open>BP1\<close>. Appending one block that extends it succeeds and
  leaves the round at 3.
\<close>

theorem leader_tip_not_deepest:
  "Leader forkedChain = Ok (Some (demoBlock ''P1'' ''g''), Some 0, Some 0)
   \<and> extendsTip demoExt (hashBlock demoExt (demoBlock ''P1'' ''g'')) [(demoBlock ''P4'' ''BP1'', 1)]
   \<and> Round forkedChain = 3
   \<and> fst (addBlock demoExt (demoBlock ''P4'' ''BP1'') 1 forkedChain) = Ok False
   \<and> Round (snd (addBlock demoExt (demoBlock ''P4'' ''BP1'') 1 forkedChain)) = 3"
  by (simp add: Leader_def heaviestFork_def forkedChain_eval addBlock_def Let_def demoExt_def
      demoBlock_def Round_def maxHeight_def)

text \<open>
  C8, for a first parent at the deepest position. On a chain whose fork blocks are all
  indexed by hash, let \<open>n\<close> blocks each name the one before as parent, the first naming
  a parent at the deepest position of the fork tree (the finalized or history tail when
  the fork is empty). If \<^verbatim>\<open>addBlock\<close> accepts them all, \<^verbatim>\<open>Round()\<close> afterwards is
  \<^verbatim>\<open>Round()\<close> before plus \<open>n\<close>.
\<close>

theorem addBlocks_Round_deepest:
  assumes "forkIndexed c" and "extendsTip x p bs"
    and "parentDepth p (Fork c) = maxHeight (Fork c)"
    and "addBlocks x bs c = Some c'"
  shows "Round c' = Round c + int (length bs)"
  using addBlocks_Round[OF assms(1,2) _ assms(4)] assms(3) by (simp add: maxHeight_forkDepth)

theorem addBlocks_Round_deepest_witness:
  "forkIndexed twoProposals
   \<and> extendsTip demoExt ''g'' [(demoBlock ''P1'' ''g'', 1), (demoBlock ''P2'' ''BP1'', 1)]
   \<and> parentDepth ''g'' (Fork twoProposals) = maxHeight (Fork twoProposals)
   \<and> addBlocks demoExt [(demoBlock ''P1'' ''g'', 1), (demoBlock ''P2'' ''BP1'', 1)] twoProposals
       \<noteq> None
   \<and> Round twoProposals = 1
   \<and> Round (the (addBlocks demoExt
        [(demoBlock ''P1'' ''g'', 1), (demoBlock ''P2'' ''BP1'', 1)] twoProposals)) = 3"
proof -
  let ?bs = "[(demoBlock ''P1'' ''g'', 1), (demoBlock ''P2'' ''BP1'', 1)]"
  have ix: "forkIndexed twoProposals" by (simp add: forkIndexed_def twoProposals_eval)
  have ext: "extendsTip demoExt ''g'' ?bs" by (simp add: demoBlock_def demoExt_def)
  have tip: "parentDepth ''g'' (Fork twoProposals) = maxHeight (Fork twoProposals)"
    by (simp add: twoProposals_eval parentDepth_def maxHeight_def)
  have ne: "addBlocks demoExt ?bs twoProposals \<noteq> None"
    by (simp add: addBlock_def Let_def twoProposals_eval demoExt_def demoBlock_def Round_def
        maxHeight_def)
  then have some: "addBlocks demoExt ?bs twoProposals
                   = Some (the (addBlocks demoExt ?bs twoProposals))"
    by simp
  have r: "Round twoProposals = 1"
    by (simp add: twoProposals_eval Round_def maxHeight_def)
  from addBlocks_Round_deepest [OF ix ext tip some] ix ext tip ne r
  show ?thesis by simp
qed

end
